theory Spec2Isabelle
  imports Complex_Main
begin

section \<open>The admission control of src/api/maxmovies/route.js\<close>

text \<open>
  The class \<open>RateLimiter\<close> keeps one JSON file per key in the directory
  \<open>/tmp/ratelimits\<close>. Two shapes of file live there: window counters
  \<open>{count, resetAt, firstRequest}\<close>, under keys that start with \<open>minute_\<close>, \<open>hour_\<close>,
  \<open>burst_\<close> or \<open>ip_\<close>, and daily token totals \<open>{total}\<close>, under keys that start with
  \<open>tokens_\<close>. A key of one shape is never a key of the other (lemma
  \<open>tokenKey_not_limit_key\<close>), so the directory is modelled as one map per shape. A file
  that exists but cannot be read or parsed is \<open>Unreadable\<close>; the files are written by
  \<open>JSON.stringify\<close> of these two shapes only, so a file that parses has its shape.

  The numbers of the source hold integers (time stamps in milliseconds, counters, token
  amounts); they are modelled as unbounded \<open>int\<close>. The clock is an argument: a call of
  \<open>checkLimit\<close> is taken to happen at one instant, all its reads of \<open>Date.now()\<close> and
  \<open>new Date()\<close> return the same \<open>now\<close>. A file is named by its key, and a write succeeds.
  User ids and addresses are HOL strings: the handler accepts ASCII user ids only, and the
  address comes from a header or from the socket.
\<close>

subsection \<open>Configuration\<close>

definition requestsPerMinute :: int where "requestsPerMinute = 30"
definition requestsPerHour :: int where "requestsPerHour = 200"
definition burstWindowMs :: int where "burstWindowMs = 10000"
definition burstMax :: int where "burstMax = 5"
definition dailyTokens :: int where "dailyTokens = 100000"

subsection \<open>Files and the store\<close>

record limit_data =
  count :: int
  resetAt :: int
  firstRequest :: int

record token_data =
  total :: int

datatype 'a json_file = Unreadable | Parsed 'a

datatype read_error = ParseError

text \<open>\<open>JSON.parse(fs.readFileSync(filePath))\<close>: throws on a file that cannot be read or parsed.\<close>

fun readJson :: "'a json_file \<Rightarrow> read_error + 'a" where
  "readJson Unreadable = Inl ParseError"
| "readJson (Parsed d) = Inr d"

record store =
  limitFiles :: "string \<rightharpoonup> limit_data json_file"
  tokenFiles :: "string \<rightharpoonup> token_data json_file"

text \<open>The object \<open>limits\<close> that \<open>checkLimit\<close> returns; its field \<open>resetAt\<close> is \<open>verdictResetAt\<close> here.\<close>

record verdict =
  allowed :: bool
  violations :: "string list"
  retryAfter :: int
  verdictResetAt :: int

subsection \<open>Keys and messages\<close>

text \<open>Template literals print a number in decimal.\<close>

definition digit :: "nat \<Rightarrow> char" where
  "digit n = ''0123456789'' ! n"

function decimal :: "nat \<Rightarrow> string" where
  "decimal n = (if n < 10 then [digit n] else decimal (n div 10) @ [digit (n mod 10)])"
  by pat_completeness auto
termination
  by (relation "measure id") auto

declare decimal.simps [simp del]

definition minuteKey :: "string \<Rightarrow> string \<Rightarrow> string" where
  "minuteKey userId ip = ''minute_'' @ userId @ ''_'' @ ip"

definition hourKey :: "string \<Rightarrow> string \<Rightarrow> string" where
  "hourKey userId ip = ''hour_'' @ userId @ ''_'' @ ip"

definition burstKey :: "string \<Rightarrow> string \<Rightarrow> string" where
  "burstKey userId ip = ''burst_'' @ userId @ ''_'' @ ip"

definition tokenKey :: "string \<Rightarrow> string" where
  "tokenKey userId = ''tokens_'' @ userId"

definition ipKey :: "string \<Rightarrow> string" where
  "ipKey ip = ''ip_'' @ ip"

definition minuteMsg :: string where
  "minuteMsg = ''Minute limit ('' @ decimal (nat requestsPerMinute) @ ''/min)''"

definition hourMsg :: string where
  "hourMsg = ''Hour limit ('' @ decimal (nat requestsPerHour) @ ''/hour)''"

definition burstMsg :: string where
  "burstMsg = ''Burst limit ('' @ decimal (nat burstMax) @ ''/10s)''"

definition tokenMsg :: string where
  "tokenMsg = ''Daily token limit ('' @ decimal (nat dailyTokens) @ '')''"

definition ipMsg :: string where
  "ipMsg = ''IP limit exceeded''"

subsection \<open>RateLimiter.getLimit and RateLimiter.updateLimit\<close>

text \<open>The record \<open>{ count: 0, resetAt: now + windowMs, firstRequest: now }\<close> of an absent, unreadable or expired file.\<close>

definition freshLimit :: "int \<Rightarrow> int \<Rightarrow> limit_data" where
  "freshLimit windowMs now = \<lparr>count = 0, resetAt = now + windowMs, firstRequest = now\<rparr>"

definition getLimit :: "store \<Rightarrow> string \<Rightarrow> int \<Rightarrow> int \<Rightarrow> limit_data" where
  "getLimit s key windowMs now =
     (case limitFiles s key of
        Some f \<Rightarrow>
          (case readJson f of
             Inr data \<Rightarrow> if now > resetAt data then freshLimit windowMs now else data
           | Inl err \<Rightarrow> freshLimit windowMs now)
      | None \<Rightarrow> freshLimit windowMs now)"

definition updateLimit :: "store \<Rightarrow> string \<Rightarrow> int \<Rightarrow> int \<Rightarrow> store" where
  "updateLimit s key windowMs now =
     (let data = getLimit s key windowMs now;
          data1 = data\<lparr>count := count data + 1\<rparr>;
          data2 = (if now > resetAt data1
                   then data1\<lparr>count := 1, resetAt := now + windowMs, firstRequest := now\<rparr>
                   else data1)
      in s\<lparr>limitFiles := (limitFiles s)(key \<mapsto> Parsed data2)\<rparr>)"

subsection \<open>RateLimiter.getDailyTokens and RateLimiter.updateDailyTokens\<close>

text \<open>
  \<open>const midnight = new Date(); midnight.setUTCHours(24, 0, 0, 0); midnight.getTime()\<close>:
  hour 24 of the current UTC day, which is 00:00 of the next day. In \<open>data.total || 0\<close>
  the total is a number, and the expression is the total.
\<close>

definition msPerDay :: int where "msPerDay = 86400000"

definition midnightTime :: "int \<Rightarrow> int" where
  "midnightTime t = (t div msPerDay) * msPerDay + 24 * 3600000"

definition getDailyTokens :: "store \<Rightarrow> string \<Rightarrow> int \<Rightarrow> int" where
  "getDailyTokens s key now =
     (case tokenFiles s key of
        Some f \<Rightarrow>
          (case readJson f of
             Inr data \<Rightarrow> if now > midnightTime now then 0 else total data
           | Inl err \<Rightarrow> 0)
      | None \<Rightarrow> 0)"

definition updateDailyTokens :: "store \<Rightarrow> string \<Rightarrow> int \<Rightarrow> int \<Rightarrow> store" where
  "updateDailyTokens s key toks now =
     (case (case tokenFiles s key of
              Some f \<Rightarrow> readJson f
            | None \<Rightarrow> Inr \<lparr>total = 0\<rparr>) of
        Inr data \<Rightarrow>
          (let data1 = (if now > midnightTime now then data\<lparr>total := toks\<rparr>
                        else data\<lparr>total := total data + toks\<rparr>)
           in s\<lparr>tokenFiles := (tokenFiles s)(key \<mapsto> Parsed data1)\<rparr>)
      | Inl err \<Rightarrow> s)"

subsection \<open>RateLimiter.checkLimit\<close>

text \<open>\<open>Math.ceil((resetAt - now) / 1000)\<close>\<close>

definition retrySeconds :: "int \<Rightarrow> int \<Rightarrow> int" where
  "retrySeconds reset now = \<lceil>real_of_int (reset - now) / 1000\<rceil>"

text \<open>
  The three statements of a failed window check:
  \<open>limits.allowed = false; limits.violations.push(msg);
  limits.retryAfter = Math.max(limits.retryAfter, Math.ceil((l.resetAt - now) / 1000))\<close>.
\<close>

definition windowViolation :: "verdict \<Rightarrow> string \<Rightarrow> limit_data \<Rightarrow> int \<Rightarrow> verdict" where
  "windowViolation limits msg l now =
     limits\<lparr>allowed := False, violations := violations limits @ [msg],
            retryAfter := max (retryAfter limits) (retrySeconds (resetAt l) now)\<rparr>"

definition checkMinute :: "store \<Rightarrow> string \<Rightarrow> string \<Rightarrow> int \<Rightarrow> verdict \<Rightarrow> verdict" where
  "checkMinute s userId ip now limits =
     (let minuteLimit = getLimit s (minuteKey userId ip) 60000 now
      in if count minuteLimit \<ge> requestsPerMinute
         then windowViolation limits minuteMsg minuteLimit now else limits)"

definition checkHour :: "store \<Rightarrow> string \<Rightarrow> string \<Rightarrow> int \<Rightarrow> verdict \<Rightarrow> verdict" where
  "checkHour s userId ip now limits =
     (let hourLimit = getLimit s (hourKey userId ip) 3600000 now
      in if count hourLimit \<ge> requestsPerHour
         then windowViolation limits hourMsg hourLimit now else limits)"

definition checkBurst :: "store \<Rightarrow> string \<Rightarrow> string \<Rightarrow> int \<Rightarrow> verdict \<Rightarrow> verdict" where
  "checkBurst s userId ip now limits =
     (let burstLimit = getLimit s (burstKey userId ip) burstWindowMs now
      in if count burstLimit \<ge> burstMax
         then windowViolation limits burstMsg burstLimit now else limits)"

definition checkTokens :: "store \<Rightarrow> string \<Rightarrow> int \<Rightarrow> int \<Rightarrow> verdict \<Rightarrow> verdict" where
  "checkTokens s userId toks now limits =
     (let tokenUsage = getDailyTokens s (tokenKey userId) now
      in if tokenUsage + toks > dailyTokens
         then limits\<lparr>allowed := False, violations := violations limits @ [tokenMsg],
                     retryAfter := 86400\<rparr>
         else limits)"

definition checkIp :: "store \<Rightarrow> string \<Rightarrow> int \<Rightarrow> verdict \<Rightarrow> verdict" where
  "checkIp s ip now limits =
     (let ipLimit = getLimit s (ipKey ip) 3600000 now
      in if count ipLimit > 1000
         then windowViolation limits ipMsg ipLimit now else limits)"

text \<open>The five writes under \<open>if (limits.allowed)\<close>, in the order of the source.\<close>

definition updateCounts :: "store \<Rightarrow> string \<Rightarrow> string \<Rightarrow> int \<Rightarrow> int \<Rightarrow> store" where
  "updateCounts s userId ip toks now =
     (let s1 = updateLimit s (minuteKey userId ip) 60000 now;
          s2 = updateLimit s1 (hourKey userId ip) 3600000 now;
          s3 = updateLimit s2 (burstKey userId ip) burstWindowMs now;
          s4 = updateDailyTokens s3 (tokenKey userId) toks now
      in updateLimit s4 (ipKey ip) 3600000 now)"

text \<open>The five checks of \<open>checkLimit\<close>, each on the verdict that the one before has left.\<close>

definition evaluate :: "store \<Rightarrow> string \<Rightarrow> string \<Rightarrow> int \<Rightarrow> int \<Rightarrow> verdict" where
  "evaluate s userId ip toks now =
     checkIp s ip now
       (checkTokens s userId toks now
         (checkBurst s userId ip now
           (checkHour s userId ip now
             (checkMinute s userId ip now
               \<lparr>allowed = True, violations = [], retryAfter = 0,
                verdictResetAt = now + 60000\<rparr>))))"

definition checkLimit :: "store \<Rightarrow> string \<Rightarrow> string \<Rightarrow> int \<Rightarrow> int \<Rightarrow> store \<times> verdict" where
  "checkLimit s userId ip toks now =
     (let limits = evaluate s userId ip toks now
      in (if allowed limits then updateCounts s userId ip toks now else s, limits))"

section \<open>The spam detector and the sanitizer\<close>

text \<open>
  A JavaScript string is a sequence of UTF-16 code units; a code unit is modelled as a
  \<open>nat\<close>, the string as the list of its code units, so that \<open>length\<close> is the
  \<open>.length\<close> of the source. Literals of the source are written as HOL strings and
  converted with \<open>js\<close>. Flags are built from ASCII literals only and stay HOL strings.
\<close>

type_synonym jsstring = "nat list"

definition js :: "string \<Rightarrow> jsstring" where
  "js s = map of_char s"

text \<open>The classes \<open>\s\<close>, \<open>.\<close> and \<open>[0-9]\<close> of the regular expressions; \<open>trim\<close> strips the class \<open>\s\<close>.\<close>

definition isLineTerminator :: "nat \<Rightarrow> bool" where
  "isLineTerminator c = (c = 10 \<or> c = 13 \<or> c = 8232 \<or> c = 8233)"

definition isWhiteSpace :: "nat \<Rightarrow> bool" where
  "isWhiteSpace c =
     (c = 9 \<or> c = 11 \<or> c = 12 \<or> c = 32 \<or> c = 160 \<or> c = 5760 \<or> (8192 \<le> c \<and> c \<le> 8202) \<or>
      c = 8239 \<or> c = 8287 \<or> c = 12288 \<or> c = 65279 \<or> isLineTerminator c)"

definition isDigit :: "nat \<Rightarrow> bool" where
  "isDigit c = (48 \<le> c \<and> c \<le> 57)"

subsection \<open>sanitizeInput\<close>

text \<open>The argument of \<open>sanitizeInput\<close>: a string, or a value of another type.\<close>

datatype jsvalue = JString jsstring | NotAString

definition trim :: "jsstring \<Rightarrow> jsstring" where
  "trim s = rev (dropWhile isWhiteSpace (rev (dropWhile isWhiteSpace s)))"

definition sanitizeInput :: "jsvalue \<Rightarrow> jsstring" where
  "sanitizeInput text =
     (case text of
        NotAString \<Rightarrow> []
      | JString t \<Rightarrow> trim (take 2000 (filter (\<lambda>c. c \<noteq> 60 \<and> c \<noteq> 62) t)))"

subsection \<open>The patterns of SpamDetector\<close>

text \<open>\<open>P\<close> holds at some position of the string: a regular expression without anchors matches anywhere.\<close>

fun anywhere :: "(jsstring \<Rightarrow> bool) \<Rightarrow> jsstring \<Rightarrow> bool" where
  "anywhere P [] = P []"
| "anywhere P (c # cs) = (P (c # cs) \<or> anywhere P cs)"

definition startsWith :: "jsstring \<Rightarrow> jsstring \<Rightarrow> bool" where
  "startsWith t w = (take (length w) t = w)"

text \<open>Under the flag \<open>i\<close> an ASCII letter of the pattern matches its two cases and nothing else.\<close>

definition asciiLower :: "nat \<Rightarrow> nat" where
  "asciiLower c = (if 65 \<le> c \<and> c \<le> 90 then c + 32 else c)"

definition startsWithIgnoreCase :: "jsstring \<Rightarrow> jsstring \<Rightarrow> bool" where
  "startsWithIgnoreCase t w = (length w \<le> length t \<and> map asciiLower (take (length w) t) = w)"

text \<open>\<open>/(buy|sell|cheap|discount|offer|deal)\s+(followers|likes|views|subscribers)/i\<close>\<close>

definition offerAt :: "jsstring \<Rightarrow> bool" where
  "offerAt t =
     list_ex (\<lambda>w. startsWithIgnoreCase t (js w) \<and>
                (let r = drop (length w) t
                 in r \<noteq> [] \<and> isWhiteSpace (hd r) \<and>
                    list_ex (\<lambda>v. startsWithIgnoreCase (dropWhile isWhiteSpace r) (js v))
                      [''followers'', ''likes'', ''views'', ''subscribers'']))
       [''buy'', ''sell'', ''cheap'', ''discount'', ''offer'', ''deal'']"

text \<open>
  \<open>/(http|https|ftp):\/\/[^\s]+/g\<close> at the start of \<open>t\<close>: the length of the match.
  The expression has the flag \<open>g\<close>, so \<open>test\<close> starts at the \<open>lastIndex\<close> that the
  previous call left in the expression, and leaves the end of its match (or 0) there.
\<close>

definition urlAt :: "jsstring \<Rightarrow> nat option" where
  "urlAt t =
     (case filter (startsWith t) [js ''http://'', js ''https://'', js ''ftp://''] of
        [] \<Rightarrow> None
      | w # _ \<Rightarrow>
          (let host = takeWhile (\<lambda>c. \<not> isWhiteSpace c) (drop (length w) t)
           in if host = [] then None else Some (length w + length host)))"

fun findUrl :: "nat \<Rightarrow> jsstring \<Rightarrow> nat option" where
  "findUrl i [] = None"
| "findUrl i (c # cs) =
     (case urlAt (c # cs) of
        Some l \<Rightarrow> Some (i + l)
      | None \<Rightarrow> findUrl (Suc i) cs)"

definition testUrl :: "nat \<Rightarrow> jsstring \<Rightarrow> bool \<times> nat" where
  "testUrl lastIndex s =
     (if lastIndex > length s then (False, 0)
      else (case findUrl lastIndex (drop lastIndex s) of
              Some e \<Rightarrow> (True, e)
            | None \<Rightarrow> (False, 0)))"

text \<open>\<open>/[0-9]{16,}/\<close>\<close>

definition digitsAt :: "jsstring \<Rightarrow> bool" where
  "digitsAt t = (16 \<le> length (takeWhile isDigit t))"

text \<open>\<open>/(\S)\1{15,}/\<close>\<close>

definition repeatedAt :: "jsstring \<Rightarrow> bool" where
  "repeatedAt t =
     (case t of
        [] \<Rightarrow> False
      | c # cs \<Rightarrow> \<not> isWhiteSpace c \<and> 15 \<le> length (takeWhile (\<lambda>d. d = c) cs))"

text \<open>\<open>/(.{20,})\1{3,}/\<close>: a block of \<open>n \<ge> 20\<close> code units, none a line terminator, four times in a row.\<close>

definition blockAt :: "jsstring \<Rightarrow> bool" where
  "blockAt t =
     list_ex (\<lambda>n. (let b = take n t
                    in \<not> list_ex isLineTerminator b \<and> take (4 * n) t = b @ b @ b @ b \<and>
                       4 * n \<le> length t))
       [20 ..< Suc (length t div 4)]"

text \<open>
  \<open>(prompt.match(/(.)\1{10,}/g) || []).length\<close>: the matches do not overlap, and each
  takes a whole run of one code unit, so this counts the runs of 11 or more.
\<close>

fun repeatedChars :: "jsstring \<Rightarrow> nat" where
  "repeatedChars [] = 0"
| "repeatedChars (c # cs) =
     (if isLineTerminator c then repeatedChars cs
      else (let run = takeWhile (\<lambda>d. d = c) cs
            in if 10 \<le> length run then Suc (repeatedChars (drop (length run) cs))
               else repeatedChars cs))"

subsection \<open>SpamDetector.calculateEntropy\<close>

text \<open>
  \<open>for (const char of text)\<close> walks the string by code points: a high surrogate followed
  by a low one is one character. The arithmetic of the source is in double precision; the
  model computes in the reals.
\<close>

fun codePoints :: "jsstring \<Rightarrow> jsstring list" where
  "codePoints [] = []"
| "codePoints [c] = [[c]]"
| "codePoints (h # l # cs) =
     (if 55296 \<le> h \<and> h \<le> 56319 \<and> 56320 \<le> l \<and> l \<le> 57343
      then [h, l] # codePoints cs
      else [h] # codePoints (l # cs))"

definition calculateEntropy :: "jsstring \<Rightarrow> real" where
  "calculateEntropy text =
     (if length text < 10 then 0
      else (let chars = codePoints text
            in - (\<Sum>c \<in> set chars.
                    (let p = real (count_list chars c) / real (length text) in p * log 2 p))))"

subsection \<open>SpamDetector.analyze\<close>

definition suspiciousKeywords :: "string list" where
  "suspiciousKeywords =
     [''casino'', ''gambling'', ''porn'', ''xxx'', ''viagra'', ''cialis'',
      ''crypto'', ''bitcoin'', ''investment'', ''earn money'', ''work from home'',
      ''click here'', ''bit.ly'', ''tinyurl'', ''shorturl'', ''adf.ly'',
      ''prescription'', ''drugs'', ''medication'', ''lottery'', ''betting'']"

definition gibberishThreshold :: real where
  "gibberishThreshold = 4.5"

record spam_result =
  isSpam :: bool
  score :: int
  flags :: "string list"
  reason :: string

text \<open>\<open>result.score += points; result.flags.push(flag)\<close>\<close>

definition flagged :: "spam_result \<Rightarrow> int \<Rightarrow> string \<Rightarrow> spam_result" where
  "flagged result points flag =
     result\<lparr>score := score result + points, flags := flags result @ [flag]\<rparr>"

text \<open>\<open>flags.join(", ")\<close>\<close>

fun joinFlags :: "string list \<Rightarrow> string" where
  "joinFlags [] = []"
| "joinFlags [f] = f"
| "joinFlags (f # g # fs) = f @ '', '' @ joinFlags (g # fs)"

definition includesJs :: "jsstring \<Rightarrow> jsstring \<Rightarrow> bool" where
  "includesJs s w = anywhere (\<lambda>t. startsWith t w) s"

text \<open>
  \<open>analyze\<close> takes the \<open>lastIndex\<close> of the second pattern and returns its new value with the
  result: the detector is one object shared by all requests. \<open>String.prototype.toLowerCase\<close>
  is the Unicode mapping of the engine; it is a parameter of the model.
\<close>

definition checkLength :: "jsstring \<Rightarrow> spam_result \<Rightarrow> spam_result" where
  "checkLength prompt result =
     (let r1 = (if length prompt < 2 then flagged result 20 ''too_short'' else result)
      in if length prompt > 2000 then flagged r1 15 ''too_long'' else r1)"

definition checkPatterns :: "bool list \<Rightarrow> spam_result \<Rightarrow> spam_result" where
  "checkPatterns tests result =
     fold (\<lambda>(index, matched) r. if matched then flagged r 25 (''pattern_'' @ decimal index) else r)
       (zip [0 ..< length tests] tests) result"

definition checkKeywords :: "jsstring \<Rightarrow> spam_result \<Rightarrow> spam_result" where
  "checkKeywords lowerPrompt result =
     fold (\<lambda>keyword r. if includesJs lowerPrompt (js keyword)
                        then flagged r 20 (''keyword_'' @ keyword) else r)
       suspiciousKeywords result"

definition checkEntropy :: "jsstring \<Rightarrow> spam_result \<Rightarrow> spam_result" where
  "checkEntropy prompt result =
     (if calculateEntropy prompt > gibberishThreshold then flagged result 30 ''high_entropy''
      else result)"

definition checkRepetition :: "jsstring \<Rightarrow> spam_result \<Rightarrow> spam_result" where
  "checkRepetition prompt result =
     (let n = repeatedChars prompt
      in if n > 0 then flagged result (int n * 10) (''repetition_'' @ decimal n) else result)"

definition analyze :: "(jsstring \<Rightarrow> jsstring) \<Rightarrow> nat \<Rightarrow> jsstring \<Rightarrow> spam_result \<times> nat" where
  "analyze toLowerCase lastIndex prompt =
     (let (url, lastIndex1) = testUrl lastIndex prompt;
          tests = [anywhere offerAt prompt, url, anywhere digitsAt prompt,
                   anywhere repeatedAt prompt, anywhere blockAt prompt];
          result =
            checkRepetition prompt
              (checkEntropy prompt
                (checkKeywords (toLowerCase prompt)
                  (checkPatterns tests
                    (checkLength prompt \<lparr>isSpam = False, score = 0, flags = [], reason = ''''\<rparr>))))
      in (result\<lparr>isSpam := score result > 40, reason := joinFlags (flags result)\<rparr>, lastIndex1))"

text \<open>The two steps of the POST handler that lead to the classifier.\<close>

definition spamAnalysis :: "(jsstring \<Rightarrow> jsstring) \<Rightarrow> nat \<Rightarrow> jsvalue \<Rightarrow> spam_result \<times> nat" where
  "spamAnalysis toLowerCase lastIndex prompt =
     analyze toLowerCase lastIndex (sanitizeInput prompt)"

text \<open>A lower-casing that is right on ASCII strings.\<close>

definition asciiToLowerCase :: "jsstring \<Rightarrow> jsstring" where
  "asciiToLowerCase s = map asciiLower s"

section \<open>Notions for the properties\<close>

text \<open>The record that \<open>updateLimit\<close> writes, from the record \<open>d\<close> that its \<open>getLimit\<close> has read.\<close>

definition bumped :: "limit_data \<Rightarrow> int \<Rightarrow> int \<Rightarrow> limit_data" where
  "bumped d w now =
     (if now > resetAt d then d\<lparr>count := 1, resetAt := now + w, firstRequest := now\<rparr>
      else d\<lparr>count := count d + 1\<rparr>)"

text \<open>The conditions of the five checks.\<close>

definition minuteExceeded :: "store \<Rightarrow> string \<Rightarrow> string \<Rightarrow> int \<Rightarrow> bool" where
  "minuteExceeded s u i now = (count (getLimit s (minuteKey u i) 60000 now) \<ge> requestsPerMinute)"

definition hourExceeded :: "store \<Rightarrow> string \<Rightarrow> string \<Rightarrow> int \<Rightarrow> bool" where
  "hourExceeded s u i now = (count (getLimit s (hourKey u i) 3600000 now) \<ge> requestsPerHour)"

definition burstExceeded :: "store \<Rightarrow> string \<Rightarrow> string \<Rightarrow> int \<Rightarrow> bool" where
  "burstExceeded s u i now = (count (getLimit s (burstKey u i) burstWindowMs now) \<ge> burstMax)"

definition tokensExceeded :: "store \<Rightarrow> string \<Rightarrow> int \<Rightarrow> int \<Rightarrow> bool" where
  "tokensExceeded s u toks now = (getDailyTokens s (tokenKey u) now + toks > dailyTokens)"

definition ipExceeded :: "store \<Rightarrow> string \<Rightarrow> int \<Rightarrow> bool" where
  "ipExceeded s i now = (count (getLimit s (ipKey i) 3600000 now) > 1000)"

text \<open>The per-address window that a call at \<open>now\<close> sees ends at most one hour later.\<close>

definition ipWindowBounded :: "store \<Rightarrow> string \<Rightarrow> int \<Rightarrow> bool" where
  "ipWindowBounded s i now = (resetAt (getLimit s (ipKey i) 3600000 now) \<le> now + 3600000)"

text \<open>Directories for the examples.\<close>

definition emptyStore :: store where
  "emptyStore = \<lparr>limitFiles = Map.empty, tokenFiles = Map.empty\<rparr>"

definition burstFullStore :: store where
  "burstFullStore = \<lparr>limitFiles = [burstKey ''alice'' ''10.0.0.1'' \<mapsto>
       Parsed \<lparr>count = 5, resetAt = 10000, firstRequest = 0\<rparr>], tokenFiles = Map.empty\<rparr>"


definition tokenFullStore :: store where
  "tokenFullStore = \<lparr>limitFiles = [ipKey ''10.0.0.1'' \<mapsto>
       Parsed \<lparr>count = 1001, resetAt = 3600000, firstRequest = 0\<rparr>],
     tokenFiles = [tokenKey ''alice'' \<mapsto> Parsed \<lparr>total = 99999\<rparr>]\<rparr>"

text \<open>
  \<open>grows r r'\<close>: from \<open>r\<close> to \<open>r'\<close> the score did not go down, no flag was removed,
  and \<open>too_long\<close> was not added.
\<close>

definition grows :: "spam_result \<Rightarrow> spam_result \<Rightarrow> bool" where
  "grows r r' =
     (score r \<le> score r' \<and> set (flags r) \<subseteq> set (flags r') \<and>
      set (flags r') \<subseteq> set (flags r) \<union> (UNIV - {''too_long''}))"

subsection \<open>Sequences of requests\<close>

text \<open>
  A request as \<open>checkLimit\<close> sees it: the user, the client address, the estimated
  tokens, and the instant of the call. \<open>run\<close> serves a list of requests one after the
  other on the same directory and collects the verdicts.
\<close>

record request =
  reqUser :: string
  reqIp :: string
  reqTokens :: int
  reqTime :: int

fun run :: "store \<Rightarrow> request list \<Rightarrow> store \<times> verdict list" where
  "run s [] = (s, [])"
| "run s (r # rs) =
     (let (s1, v) = checkLimit s (reqUser r) (reqIp r) (reqTokens r) (reqTime r);
          (s2, vs) = run s1 rs
      in (s2, v # vs))"



text \<open>The windows that an admitted request counts in.\<close>

definition bumps :: "request \<Rightarrow> string \<Rightarrow> int \<Rightarrow> bool" where
  "bumps r key w =
     ((key = minuteKey (reqUser r) (reqIp r) \<and> w = 60000) \<or>
      (key = hourKey (reqUser r) (reqIp r) \<and> w = 3600000) \<or>
      (key = burstKey (reqUser r) (reqIp r) \<and> w = burstWindowMs) \<or>
      (key = ipKey (reqIp r) \<and> w = 3600000))"








section \<open>Properties of the rate limiter\<close>

subsection \<open>Messages, keys and the two kinds of file\<close>

lemma minuteMsg_eq: "minuteMsg = ''Minute limit (30/min)''"
  by (simp add: minuteMsg_def requestsPerMinute_def decimal.simps digit_def)

lemma hourMsg_eq: "hourMsg = ''Hour limit (200/hour)''"
  by (simp add: hourMsg_def requestsPerHour_def decimal.simps digit_def)

lemma burstMsg_eq: "burstMsg = ''Burst limit (5/10s)''"
  by (simp add: burstMsg_def burstMax_def decimal.simps digit_def)

lemma tokenMsg_eq: "tokenMsg = ''Daily token limit (100000)''"
  by (simp add: tokenMsg_def dailyTokens_def decimal.simps digit_def)

lemmas msg_eqs = minuteMsg_eq hourMsg_eq burstMsg_eq tokenMsg_eq ipMsg_def

subsection \<open>The daily token total\<close>

text \<open>Hour 24 of the current UTC day is always ahead: the reset branch of both token functions is dead.\<close>

lemma midnight_after: "now < midnightTime now"
proof -
  have "now = (now div msPerDay) * msPerDay + now mod msPerDay" by simp
  moreover have "now mod msPerDay < msPerDay" by (simp add: msPerDay_def)
  ultimately show ?thesis by (simp add: midnightTime_def msPerDay_def)
qed

lemma getDailyTokens_stored:
  "getDailyTokens s key now =
     (case tokenFiles s key of Some (Parsed d) \<Rightarrow> total d | _ \<Rightarrow> 0)"
  using midnight_after [of now]
  by (simp add: getDailyTokens_def split: option.splits json_file.splits)

lemma updateDailyTokens_stored:
  "updateDailyTokens s key toks now =
     (case tokenFiles s key of
        None \<Rightarrow> s\<lparr>tokenFiles := (tokenFiles s)(key \<mapsto> Parsed \<lparr>total = toks\<rparr>)\<rparr>
      | Some Unreadable \<Rightarrow> s
      | Some (Parsed d) \<Rightarrow>
          s\<lparr>tokenFiles := (tokenFiles s)(key \<mapsto> Parsed (d\<lparr>total := total d + toks\<rparr>))\<rparr>)"
  using midnight_after [of now]
  by (auto simp add: updateDailyTokens_def Let_def split: option.splits json_file.splits)

lemma limitFiles_updateDailyTokens [simp]:
  "limitFiles (updateDailyTokens s key toks now) = limitFiles s"
  by (simp add: updateDailyTokens_stored split: option.splits json_file.splits)

lemma tokenFiles_updateLimit [simp]:
  "tokenFiles (updateLimit s key w now) = tokenFiles s"
  by (simp add: updateLimit_def Let_def)

subsection \<open>What a call writes\<close>

lemma limitFiles_updateLimit:
  "limitFiles (updateLimit s key w now) =
     (limitFiles s)(key \<mapsto> Parsed (bumped (getLimit s key w now) w now))"
  by (simp add: updateLimit_def Let_def bumped_def)

lemma getLimit_cong: "limitFiles s key = limitFiles s' key \<Longrightarrow> getLimit s key w now = getLimit s' key w now"
  by (simp add: getLimit_def)

lemma key_distinct [simp]:
  "minuteKey u i \<noteq> hourKey u' i'" "minuteKey u i \<noteq> burstKey u' i'" "minuteKey u i \<noteq> ipKey i'"
  "hourKey u i \<noteq> minuteKey u' i'" "hourKey u i \<noteq> burstKey u' i'" "hourKey u i \<noteq> ipKey i'"
  "burstKey u i \<noteq> minuteKey u' i'" "burstKey u i \<noteq> hourKey u' i'" "burstKey u i \<noteq> ipKey i'"
  "ipKey i \<noteq> minuteKey u' i'" "ipKey i \<noteq> hourKey u' i'" "ipKey i \<noteq> burstKey u' i'"
  by (simp_all add: minuteKey_def hourKey_def burstKey_def ipKey_def)

lemma tokenKey_not_limit_key:
  "tokenKey u \<noteq> minuteKey u' i" "tokenKey u \<noteq> hourKey u' i" "tokenKey u \<noteq> burstKey u' i"
  "tokenKey u \<noteq> ipKey i"
  by (simp_all add: minuteKey_def hourKey_def burstKey_def ipKey_def tokenKey_def)

lemma ipKey_inj [simp]: "ipKey i = ipKey i' \<longleftrightarrow> i = i'"
  by (simp add: ipKey_def)

subsection \<open>The verdict\<close>

lemma violations_evaluate:
  "violations (evaluate s u i toks now) =
     (if minuteExceeded s u i now then [minuteMsg] else []) @
     (if hourExceeded s u i now then [hourMsg] else []) @
     (if burstExceeded s u i now then [burstMsg] else []) @
     (if tokensExceeded s u toks now then [tokenMsg] else []) @
     (if ipExceeded s i now then [ipMsg] else [])"
  by (simp add: evaluate_def checkIp_def checkTokens_def checkBurst_def checkHour_def
      checkMinute_def windowViolation_def Let_def minuteExceeded_def hourExceeded_def
      burstExceeded_def tokensExceeded_def ipExceeded_def)

lemma allowed_evaluate:
  "allowed (evaluate s u i toks now) \<longleftrightarrow>
     \<not> minuteExceeded s u i now \<and> \<not> hourExceeded s u i now \<and> \<not> burstExceeded s u i now \<and>
     \<not> tokensExceeded s u toks now \<and> \<not> ipExceeded s i now"
  by (simp add: evaluate_def checkIp_def checkTokens_def checkBurst_def checkHour_def
      checkMinute_def windowViolation_def Let_def minuteExceeded_def hourExceeded_def
      burstExceeded_def tokensExceeded_def ipExceeded_def)

lemma snd_checkLimit [simp]: "snd (checkLimit s u i toks now) = evaluate s u i toks now"
  by (simp add: checkLimit_def Let_def)

lemma fst_checkLimit:
  "fst (checkLimit s u i toks now) =
     (if allowed (evaluate s u i toks now) then updateCounts s u i toks now else s)"
  by (simp add: checkLimit_def Let_def)

lemma limitFiles_updateCounts:
  "limitFiles (updateCounts s u i toks now) =
     (limitFiles s)
       (minuteKey u i \<mapsto> Parsed (bumped (getLimit s (minuteKey u i) 60000 now) 60000 now),
        hourKey u i \<mapsto> Parsed (bumped (getLimit s (hourKey u i) 3600000 now) 3600000 now),
        burstKey u i \<mapsto> Parsed (bumped (getLimit s (burstKey u i) burstWindowMs now) burstWindowMs now),
        ipKey i \<mapsto> Parsed (bumped (getLimit s (ipKey i) 3600000 now) 3600000 now))"
proof -
  define s1 where "s1 = updateLimit s (minuteKey u i) 60000 now"
  define s2 where "s2 = updateLimit s1 (hourKey u i) 3600000 now"
  define s3 where "s3 = updateLimit s2 (burstKey u i) burstWindowMs now"
  define s4 where "s4 = updateDailyTokens s3 (tokenKey u) toks now"
  have h: "getLimit s1 (hourKey u i) 3600000 now = getLimit s (hourKey u i) 3600000 now"
    by (rule getLimit_cong) (simp add: s1_def limitFiles_updateLimit)
  have b: "getLimit s2 (burstKey u i) burstWindowMs now = getLimit s (burstKey u i) burstWindowMs now"
    by (rule getLimit_cong) (simp add: s1_def s2_def limitFiles_updateLimit)
  have p: "getLimit s4 (ipKey i) 3600000 now = getLimit s (ipKey i) 3600000 now"
    by (rule getLimit_cong) (simp add: s1_def s2_def s3_def s4_def limitFiles_updateLimit)
  have "updateCounts s u i toks now = updateLimit s4 (ipKey i) 3600000 now"
    by (simp add: updateCounts_def Let_def s1_def s2_def s3_def s4_def)
  then have "limitFiles (updateCounts s u i toks now) =
      (limitFiles s4)(ipKey i \<mapsto> Parsed (bumped (getLimit s (ipKey i) 3600000 now) 3600000 now))"
    by (simp add: limitFiles_updateLimit p)
  also have "limitFiles s4 = limitFiles s3"
    by (simp add: s4_def)
  also have "limitFiles s3 = (limitFiles s2)(burstKey u i \<mapsto>
      Parsed (bumped (getLimit s (burstKey u i) burstWindowMs now) burstWindowMs now))"
    by (simp add: s3_def limitFiles_updateLimit b)
  also have "limitFiles s2 = (limitFiles s1)(hourKey u i \<mapsto>
      Parsed (bumped (getLimit s (hourKey u i) 3600000 now) 3600000 now))"
    by (simp add: s2_def limitFiles_updateLimit h)
  also have "limitFiles s1 = (limitFiles s)(minuteKey u i \<mapsto>
      Parsed (bumped (getLimit s (minuteKey u i) 60000 now) 60000 now))"
    by (simp add: s1_def limitFiles_updateLimit)
  finally show ?thesis .
qed


lemma retryAfter_evaluate:
  "retryAfter (evaluate s u i toks now) =
     (let r1 = (if minuteExceeded s u i now
                then max 0 (retrySeconds (resetAt (getLimit s (minuteKey u i) 60000 now)) now) else 0);
          r2 = (if hourExceeded s u i now
                then max r1 (retrySeconds (resetAt (getLimit s (hourKey u i) 3600000 now)) now) else r1);
          r3 = (if burstExceeded s u i now
                then max r2 (retrySeconds (resetAt (getLimit s (burstKey u i) burstWindowMs now)) now) else r2);
          r4 = (if tokensExceeded s u toks now then 86400 else r3)
      in (if ipExceeded s i now
          then max r4 (retrySeconds (resetAt (getLimit s (ipKey i) 3600000 now)) now) else r4))"
  by (simp add: evaluate_def checkIp_def checkTokens_def checkBurst_def checkHour_def
      checkMinute_def windowViolation_def Let_def minuteExceeded_def hourExceeded_def
      burstExceeded_def tokensExceeded_def ipExceeded_def)

lemma retrySeconds_le: "reset \<le> now + 3600000 \<Longrightarrow> retrySeconds reset now \<le> 3600"
proof -
  assume "reset \<le> now + 3600000"
  then have "real_of_int (reset - now) / 1000 \<le> 3600" by simp
  then have "\<lceil>real_of_int (reset - now) / 1000\<rceil> \<le> 3600" by (simp add: ceiling_le_iff)
  then show ?thesis by (simp add: retrySeconds_def)
qed


lemma tokenMsg_in_violations:
  "tokenMsg \<in> set (violations (evaluate s u i toks now)) \<longleftrightarrow> tokensExceeded s u toks now"
  by (simp add: violations_evaluate msg_eqs)



subsection \<open>The claims about single calls\<close>

text \<open>
  Claim C1 (UTC-midnight reset of the token budget): a total that was written before the
  current UTC day is read as 0 after the next UTC midnight. The comment in
  \<open>getDailyTokens\<close> says the same, but the code does not do it: it compares \<open>now\<close> with hour 24
  of the current day, which is always ahead, so the stored total is returned whatever its
  age. A total of 90000 written at 2024-01-01 23:59:00 UTC (1704153540000 ms) is still
  read as 90000 at 2024-01-02 00:01:00 UTC (1704153660000 ms).
\<close>

theorem midnight_reset_missing:
  "getDailyTokens
     (updateDailyTokens emptyStore (tokenKey ''alice'') 90000 1704153540000)
     (tokenKey ''alice'') 1704153660000 = 90000"
  by (simp add: getDailyTokens_stored updateDailyTokens_stored emptyStore_def)

text \<open>
  Claim C3 (a denial consumes no quota): when the verdict of \<open>checkLimit\<close> is not allowed,
  the directory is left as it was: none of the four window counters and no token total
  has changed.
\<close>

theorem denial_consumes_no_quota:
  "\<not> allowed (snd (checkLimit s userId ip toks now)) \<Longrightarrow>
     fst (checkLimit s userId ip toks now) = s"
  by (simp add: checkLimit_def Let_def)

theorem denial_consumes_no_quota_witness:
  "\<not> allowed (snd (checkLimit burstFullStore ''alice'' ''10.0.0.1'' 5 1000)) \<and>
   fst (checkLimit burstFullStore ''alice'' ''10.0.0.1'' 5 1000) = burstFullStore"
proof -
  have "\<not> allowed (snd (checkLimit burstFullStore ''alice'' ''10.0.0.1'' 5 1000))"
    by (simp add: allowed_evaluate burstExceeded_def getLimit_def burstFullStore_def burstMax_def
        burstWindowMs_def)
  then show ?thesis
    using denial_consumes_no_quota [of burstFullStore "''alice''" "''10.0.0.1''" 5 1000] by simp
qed

text \<open>
  Claim C5 (daily-token violation): the token check records its violation exactly when the
  total of the day plus the estimated tokens is above 100000 (a total of exactly 100000
  passes), and then the verdict carries \<open>retryAfter = 86400\<close>. The per-address check that
  follows takes the maximum with its own delay; the premise says that the live per-address
  window ends at most one hour ahead, which is so in every directory the limiter has
  written (lemmas \<open>ipWindowBounded_empty\<close> and \<open>ipWindowBounded_run\<close>).
\<close>

theorem daily_token_violation:
  "ipWindowBounded s ip now \<Longrightarrow>
     (tokenMsg \<in> set (violations (snd (checkLimit s userId ip toks now)))
        \<longleftrightarrow> getDailyTokens s (tokenKey userId) now + toks > 100000) \<and>
     (tokenMsg \<in> set (violations (snd (checkLimit s userId ip toks now)))
        \<longrightarrow> retryAfter (snd (checkLimit s userId ip toks now)) = 86400)"
proof -
  assume b: "ipWindowBounded s ip now"
  have r: "retrySeconds (resetAt (getLimit s (ipKey ip) 3600000 now)) now \<le> 3600"
    using b by (simp add: ipWindowBounded_def retrySeconds_le)
  have 1: "tokenMsg \<in> set (violations (snd (checkLimit s userId ip toks now)))
        \<longleftrightarrow> getDailyTokens s (tokenKey userId) now + toks > 100000"
    by (simp add: tokenMsg_in_violations tokensExceeded_def dailyTokens_def)
  have 2: "tokensExceeded s userId toks now \<Longrightarrow> retryAfter (evaluate s userId ip toks now) = 86400"
    using r by (simp add: retryAfter_evaluate Let_def)
  show ?thesis using 1 2 by (simp add: tokenMsg_in_violations)
qed

theorem daily_token_violation_witness:
  "ipWindowBounded tokenFullStore ''10.0.0.1'' 1000 \<and>
   tokenMsg \<in> set (violations (snd (checkLimit tokenFullStore ''alice'' ''10.0.0.1'' 2 1000))) \<and>
   getDailyTokens tokenFullStore (tokenKey ''alice'') 1000 + 2 > 100000 \<and>
   retryAfter (snd (checkLimit tokenFullStore ''alice'' ''10.0.0.1'' 2 1000)) = 86400"
proof -
  have b: "ipWindowBounded tokenFullStore ''10.0.0.1'' 1000"
    by (simp add: ipWindowBounded_def getLimit_def tokenFullStore_def)
  have g: "getDailyTokens tokenFullStore (tokenKey ''alice'') 1000 + 2 > 100000"
    by (simp add: getDailyTokens_stored tokenFullStore_def)
  show ?thesis
    using daily_token_violation [OF b, of "''alice''" 2] g b by simp
qed

text \<open>
  Claim C6 (charge and refund): charging \<open>t\<close> tokens and then refunding them, which is
  charging \<open>- t\<close>, gives back the total that \<open>getDailyTokens\<close> read before the charge. It
  holds at any instants of the four calls, because the total is never reset.
\<close>

theorem charge_refund_round_trip:
  "getDailyTokens
     (updateDailyTokens (updateDailyTokens s key t chargedAt) key (- t) refundedAt) key after
   = getDailyTokens s key before"
  by (simp add: getDailyTokens_stored updateDailyTokens_stored
      split: option.splits json_file.splits)

theorem charge_refund_round_trip_witness:
  "getDailyTokens tokenFullStore (tokenKey ''alice'') 1000 = 99999 \<and>
   getDailyTokens (updateDailyTokens tokenFullStore (tokenKey ''alice'') 500 1000)
     (tokenKey ''alice'') 2000 = 100499 \<and>
   getDailyTokens
     (updateDailyTokens (updateDailyTokens tokenFullStore (tokenKey ''alice'') 500 1000)
        (tokenKey ''alice'') (- 500) 31000)
     (tokenKey ''alice'') 32000 = 99999"
proof -
  have a: "getDailyTokens tokenFullStore (tokenKey ''alice'') 1000 = 99999"
    by (simp add: getDailyTokens_stored tokenFullStore_def)
  have b: "getDailyTokens (updateDailyTokens tokenFullStore (tokenKey ''alice'') 500 1000)
     (tokenKey ''alice'') 2000 = 100499"
    by (simp add: getDailyTokens_stored updateDailyTokens_stored tokenFullStore_def)
  show ?thesis
    using charge_refund_round_trip [of tokenFullStore "tokenKey ''alice''" 500 1000 31000 32000 1000]
      a b by simp
qed

text \<open>
  Claim C7 (consistency of the verdict): \<open>allowed\<close> is true exactly when the list of
  violations is empty, and the list holds the message of every check that failed, in the
  order of the checks: no check is skipped because an earlier one failed.
\<close>

theorem verdict_consistency:
  "allowed (snd (checkLimit s userId ip toks now))
     = (violations (snd (checkLimit s userId ip toks now)) = []) \<and>
   violations (snd (checkLimit s userId ip toks now)) =
     (if count (getLimit s (minuteKey userId ip) 60000 now) \<ge> 30 then [minuteMsg] else []) @
     (if count (getLimit s (hourKey userId ip) 3600000 now) \<ge> 200 then [hourMsg] else []) @
     (if count (getLimit s (burstKey userId ip) 10000 now) \<ge> 5 then [burstMsg] else []) @
     (if getDailyTokens s (tokenKey userId) now + toks > 100000 then [tokenMsg] else []) @
     (if count (getLimit s (ipKey ip) 3600000 now) > 1000 then [ipMsg] else [])"
  by (simp add: allowed_evaluate violations_evaluate minuteExceeded_def hourExceeded_def
      burstExceeded_def tokensExceeded_def ipExceeded_def requestsPerMinute_def
      requestsPerHour_def burstMax_def burstWindowMs_def dailyTokens_def)



subsection \<open>Counting in a window along a run\<close>

lemma length_run [simp]: "length (snd (run s rs)) = length rs"
  by (induction rs arbitrary: s) (simp_all add: split_def Let_def)







lemma limitFiles_bumped:
  "bumps r key w \<Longrightarrow>
     limitFiles (updateCounts s (reqUser r) (reqIp r) toks now) key
       = Some (Parsed (bumped (getLimit s key w now) w now))"
  by (auto simp add: bumps_def limitFiles_updateCounts)




subsection \<open>The minute window\<close>



subsection \<open>Evaluating a run on a concrete directory\<close>





subsection \<open>A run of 31 requests inside one minute\<close>




subsection \<open>The per-address window\<close>






subsection \<open>1002 requests of 1002 users from one address\<close>

lemma user_key_inj [simp]:
  "minuteKey u i = minuteKey u' i \<longleftrightarrow> u = u'"
  "hourKey u i = hourKey u' i \<longleftrightarrow> u = u'"
  "burstKey u i = burstKey u' i \<longleftrightarrow> u = u'"
  "tokenKey u = tokenKey u' \<longleftrightarrow> u = u'"
  by (simp_all add: minuteKey_def hourKey_def burstKey_def tokenKey_def)
















subsection \<open>The bound on the per-address window\<close>

lemma getLimit_stored:
  "getLimit s key w now =
     (case limitFiles s key of
        Some (Parsed d) \<Rightarrow> if now > resetAt d then freshLimit w now else d
      | _ \<Rightarrow> freshLimit w now)"
  by (simp add: getLimit_def split: option.splits json_file.splits)

lemma ipWindowBounded_empty: "ipWindowBounded emptyStore i now"
  by (simp add: ipWindowBounded_def getLimit_def emptyStore_def freshLimit_def)

lemma ipWindowBounded_later:
  "ipWindowBounded s i t \<Longrightarrow> t \<le> t' \<Longrightarrow> ipWindowBounded s i t'"
  by (auto simp add: ipWindowBounded_def getLimit_stored freshLimit_def
      split: option.splits json_file.splits if_splits)

lemma ipWindowBounded_refund:
  "ipWindowBounded s i now \<Longrightarrow> ipWindowBounded (updateDailyTokens s key toks t) i now"
  by (simp add: ipWindowBounded_def getLimit_def)

lemma ipWindowBounded_checkLimit:
  assumes "ipWindowBounded s i now"
  shows "ipWindowBounded (fst (checkLimit s u i' toks now)) i now"
proof (cases "allowed (evaluate s u i' toks now) \<and> i' = i")
  case True
  have "bumps \<lparr>reqUser = u, reqIp = i, reqTokens = toks, reqTime = now\<rparr> (ipKey i) 3600000"
    by (simp add: bumps_def)
  then have "limitFiles (updateCounts s u i toks now) (ipKey i)
      = Some (Parsed (bumped (getLimit s (ipKey i) 3600000 now) 3600000 now))"
    using limitFiles_bumped [of "\<lparr>reqUser = u, reqIp = i, reqTokens = toks, reqTime = now\<rparr>"
        "ipKey i" 3600000 s toks now] by simp
  then show ?thesis
    using True assms
    by (simp add: fst_checkLimit ipWindowBounded_def bumped_def freshLimit_def
        getLimit_def [of "updateCounts s u i toks now"])
next
  case False
  then have "limitFiles (fst (checkLimit s u i' toks now)) (ipKey i) = limitFiles s (ipKey i)"
    by (auto simp add: fst_checkLimit limitFiles_updateCounts)
  then have "getLimit (fst (checkLimit s u i' toks now)) (ipKey i) 3600000 now
      = getLimit s (ipKey i) 3600000 now"
    by (rule getLimit_cong)
  then show ?thesis using assms by (simp add: ipWindowBounded_def)
qed

lemma ipWindowBounded_run:
  assumes "ipWindowBounded s i t0" "sorted (t0 # map reqTime rs)"
  shows "ipWindowBounded (fst (run s rs)) i (last (t0 # map reqTime rs))"
  using assms
proof (induction rs arbitrary: s t0)
  case Nil
  then show ?case by simp
next
  case (Cons r rs)
  let ?s1 = "fst (checkLimit s (reqUser r) (reqIp r) (reqTokens r) (reqTime r))"
  have "ipWindowBounded s i (reqTime r)"
    using Cons.prems ipWindowBounded_later [of s i t0 "reqTime r"] by simp
  then have 1: "ipWindowBounded ?s1 i (reqTime r)"
    by (rule ipWindowBounded_checkLimit)
  have 2: "sorted (reqTime r # map reqTime rs)"
    using Cons.prems(2) by simp
  have "ipWindowBounded (fst (run ?s1 rs)) i (last (reqTime r # map reqTime rs))"
    using Cons.IH [OF 1 2] .
  then show ?case by (simp add: split_def Let_def)
qed

section \<open>Properties of the spam detector\<close>

lemma grows_refl [simp]: "grows r r"
  by (simp add: grows_def)

lemma grows_trans: "grows a b \<Longrightarrow> grows b c \<Longrightarrow> grows a c"
  by (auto simp add: grows_def)

lemma grows_flagged: "0 \<le> p \<Longrightarrow> f \<noteq> ''too_long'' \<Longrightarrow> grows r (flagged r p f)"
  by (auto simp add: grows_def flagged_def)

lemma grows_fold:
  assumes "\<And>x r. x \<in> set xs \<Longrightarrow> grows r (g x r)"
  shows "grows r (fold g xs r)"
  using assms
proof (induction xs arbitrary: r)
  case Nil
  then show ?case by simp
next
  case (Cons x xs)
  have "grows r (g x r)" using Cons.prems by simp
  moreover have "grows (g x r) (fold g xs (g x r))" using Cons by simp
  ultimately show ?case using grows_trans by fastforce
qed

lemma grows_checkPatterns: "grows r (checkPatterns tests r)"
  unfolding checkPatterns_def
  by (rule grows_fold) (auto simp add: grows_flagged)

lemma grows_checkKeywords: "grows r (checkKeywords lowerPrompt r)"
  unfolding checkKeywords_def
  by (rule grows_fold) (auto simp add: grows_flagged)

lemma grows_checkEntropy: "grows r (checkEntropy prompt r)"
  by (simp add: checkEntropy_def grows_flagged)

lemma grows_checkRepetition: "grows r (checkRepetition prompt r)"
  by (simp add: checkRepetition_def Let_def grows_flagged)

lemma grows_rest:
  "grows r (checkRepetition prompt (checkEntropy prompt (checkKeywords lowerPrompt (checkPatterns tests r))))"
  by (meson grows_trans grows_checkPatterns grows_checkKeywords grows_checkEntropy
      grows_checkRepetition)

lemma analyze_result:
  "fst (analyze toLowerCase lastIndex prompt) =
     (let result = checkRepetition prompt (checkEntropy prompt (checkKeywords (toLowerCase prompt)
          (checkPatterns [anywhere offerAt prompt, fst (testUrl lastIndex prompt),
              anywhere digitsAt prompt, anywhere repeatedAt prompt, anywhere blockAt prompt]
            (checkLength prompt \<lparr>isSpam = False, score = 0, flags = [], reason = ''''\<rparr>))))
      in result\<lparr>isSpam := score result > 40, reason := joinFlags (flags result)\<rparr>)"
  by (simp add: analyze_def Let_def split_def)

lemma length_trim: "length (trim s) \<le> length s"
proof -
  have "length (trim s) = length (dropWhile isWhiteSpace (rev (dropWhile isWhiteSpace s)))"
    by (simp add: trim_def)
  also have "\<dots> \<le> length (rev (dropWhile isWhiteSpace s))"
    by (rule length_dropWhile_le)
  also have "\<dots> \<le> length s"
    by (simp add: length_dropWhile_le)
  finally show ?thesis .
qed

lemma length_sanitizeInput: "length (sanitizeInput text) \<le> 2000"
proof (cases "text")
  case (JString t)
  have "length (trim (take 2000 (filter (\<lambda>c. c \<noteq> 60 \<and> c \<noteq> 62) t)))
      \<le> length (take 2000 (filter (\<lambda>c. c \<noteq> 60 \<and> c \<noteq> 62) t))"
    by (rule length_trim)
  also have "\<dots> \<le> 2000" by simp
  finally show ?thesis using JString by (simp add: sanitizeInput_def)
next
  case NotAString
  then show ?thesis by (simp add: sanitizeInput_def)
qed

text \<open>
  Claim C9 (scoring of a short input): for a prompt of fewer than 2 code units the length
  check adds 20 and the flag \<open>too_short\<close>; no later step lowers the score or drops a flag,
  so the result has the flag and a score of at least 20. For every prompt the verdict is
  \<open>isSpam = (score > 40)\<close>.
\<close>
theorem short_input_scoring:
  "(length prompt < 2 \<longrightarrow>
      checkLength prompt r0 = flagged r0 20 ''too_short'' \<and>
      ''too_short'' \<in> set (flags (fst (analyze toLowerCase lastIndex prompt))) \<and>
      20 \<le> score (fst (analyze toLowerCase lastIndex prompt))) \<and>
   isSpam (fst (analyze toLowerCase lastIndex prompt))
     = (score (fst (analyze toLowerCase lastIndex prompt)) > 40)"
proof -
  let ?init = "\<lparr>isSpam = False, score = 0, flags = [], reason = ''''\<rparr>"
  let ?tests = "[anywhere offerAt prompt, fst (testUrl lastIndex prompt),
              anywhere digitsAt prompt, anywhere repeatedAt prompt, anywhere blockAt prompt]"
  let ?r1 = "checkLength prompt ?init"
  let ?r = "checkRepetition prompt (checkEntropy prompt (checkKeywords (toLowerCase prompt)
          (checkPatterns ?tests ?r1)))"
  have g: "grows ?r1 ?r" by (rule grows_rest)
  have res: "score (fst (analyze toLowerCase lastIndex prompt)) = score ?r"
    "flags (fst (analyze toLowerCase lastIndex prompt)) = flags ?r"
    "isSpam (fst (analyze toLowerCase lastIndex prompt)) = (score ?r > 40)"
    by (simp_all add: analyze_result Let_def)
  have short: "''too_short'' \<in> set (flags ?r) \<and> 20 \<le> score ?r" if "length prompt < 2"
  proof -
    have "?r1 = flagged ?init 20 ''too_short''"
      using that by (simp add: checkLength_def)
    then have "''too_short'' \<in> set (flags ?r1) \<and> 20 \<le> score ?r1"
      by (simp add: flagged_def)
    then show ?thesis using g by (auto simp add: grows_def)
  qed
  have "length prompt < 2 \<longrightarrow> checkLength prompt r0 = flagged r0 20 ''too_short''"
    by (simp add: checkLength_def)
  then show ?thesis using short res by simp
qed

text \<open>The prompt \<open>a\<close> evaluated through the whole detector.\<close>

lemma analyze_a:
  "fst (analyze asciiToLowerCase 0 (js ''a''))
     = \<lparr>isSpam = False, score = 20, flags = [''too_short''], reason = ''too_short''\<rparr>"
  by (simp add: analyze_result js_def checkLength_def flagged_def checkPatterns_def offerAt_def
      startsWithIgnoreCase_def testUrl_def urlAt_def startsWith_def digitsAt_def isDigit_def
      repeatedAt_def blockAt_def checkKeywords_def suspiciousKeywords_def includesJs_def
      asciiToLowerCase_def asciiLower_def checkEntropy_def calculateEntropy_def
      checkRepetition_def isLineTerminator_def isWhiteSpace_def gibberishThreshold_def Let_def)

theorem short_input_scoring_witness:
  "length (js ''a'') < 2 \<and>
   checkLength (js ''a'') \<lparr>isSpam = False, score = 0, flags = [], reason = ''''\<rparr>
     = \<lparr>isSpam = False, score = 20, flags = [''too_short''], reason = ''''\<rparr> \<and>
   ''too_short'' \<in> set (flags (fst (analyze asciiToLowerCase 0 (js ''a'')))) \<and>
   20 \<le> score (fst (analyze asciiToLowerCase 0 (js ''a''))) \<and>
   \<not> isSpam (fst (analyze asciiToLowerCase 0 (js ''a'')))"
proof -
  have l: "length (js ''a'') < 2" by (simp add: js_def)
  have s: "score (fst (analyze asciiToLowerCase 0 (js ''a''))) = 20"
    by (simp add: analyze_a)
  show ?thesis
    using short_input_scoring [of "js ''a''" "\<lparr>isSpam = False, score = 0, flags = [], reason = ''''\<rparr>"
        asciiToLowerCase 0] l s
    by (simp add: flagged_def)
qed

text \<open>
  Claim C10 (the branch \<open>too_long\<close> is dead on the request path): \<open>sanitizeInput\<close> returns at
  most 2000 code units, whatever it is given, and the POST handler classifies the sanitized
  prompt only; the flag \<open>too_long\<close> is never in the result.
\<close>
theorem sanitized_never_too_long:
  "length (sanitizeInput text) \<le> 2000 \<and>
   ''too_long'' \<notin> set (flags (fst (spamAnalysis toLowerCase lastIndex text)))"
proof -
  let ?p = "sanitizeInput text"
  let ?init = "\<lparr>isSpam = False, score = 0, flags = [], reason = ''''\<rparr>"
  let ?tests = "[anywhere offerAt ?p, fst (testUrl lastIndex ?p),
              anywhere digitsAt ?p, anywhere repeatedAt ?p, anywhere blockAt ?p]"
  let ?r1 = "checkLength ?p ?init"
  let ?r = "checkRepetition ?p (checkEntropy ?p (checkKeywords (toLowerCase ?p)
          (checkPatterns ?tests ?r1)))"
  have len: "length ?p \<le> 2000" by (rule length_sanitizeInput)
  then have "''too_long'' \<notin> set (flags ?r1)"
    by (simp add: checkLength_def flagged_def Let_def)
  moreover have "grows ?r1 ?r" by (rule grows_rest)
  ultimately have "''too_long'' \<notin> set (flags ?r)"
    by (auto simp add: grows_def)
  moreover have "flags (fst (spamAnalysis toLowerCase lastIndex text)) = flags ?r"
    by (simp add: spamAnalysis_def analyze_result Let_def)
  ultimately show ?thesis using len by simp
qed

theorem sanitized_never_too_long_witness:
  "length (sanitizeInput (JString (replicate 2500 97))) = 2000 \<and>
   ''too_long'' \<notin> set (flags (fst (spamAnalysis asciiToLowerCase 0 (JString (replicate 2500 97)))))"
proof -
  have "length (sanitizeInput (JString (replicate 2500 97))) = 2000"
    by (simp add: sanitizeInput_def trim_def isWhiteSpace_def isLineTerminator_def)
  then show ?thesis
    using sanitized_never_too_long [of "JString (replicate 2500 97)" asciiToLowerCase 0] by simp
qed

end
